theory Spec2Isabelle
  imports Complex_Main "HOL-Library.Sublist"
begin

section \<open>Data model of package decision (engine.go)\<close>

text \<open>
  Conventions of the embedding.
  \<^item> A Go \<^verbatim>\<open>string\<close> is a sequence of bytes; it is modelled by \<^typ>\<open>string\<close>, whose
    characters are bytes. A code point beyond ASCII is its UTF-8 byte sequence.
  \<^item> A Go \<^verbatim>\<open>float64\<close> is modelled by \<^typ>\<open>real\<close>: arithmetic is exact, rounding,
    infinities and NaN are outside the model. Every statement about prices, sizes and
    ratios below is a statement in exact arithmetic.
  \<^item> A Go \<^verbatim>\<open>int\<close> is modelled by \<^typ>\<open>int\<close>; the code only compares and
    increments these values (a leverage, a loop index, a bracket depth bounded by the
    length of the string), so the 64-bit range is never left.
  \<^item> A function returning \<^verbatim>\<open>error\<close> returns \<open>Inl e\<close> for an error and
    \<open>Inr\<close> of the result for \<^verbatim>\<open>nil\<close>. One constructor stands for each
    \<^verbatim>\<open>fmt.Errorf\<close> call of the source and carries the arguments of its format string.
\<close>

record Decision =
  Symbol :: string
  Action :: string
  Reasoning :: string
  Leverage :: int
  PositionSizeUSD :: real
  StopLoss :: real
  TakeProfitLevels :: "real list"
  TrailingStopPct :: "real option"
  ChecklistPassed :: "int option"
  RiskRewardRatio :: "real option"
  SignalType :: string
  OISignal :: string
  OIAdjustment :: string
  NewStopLoss :: "real option"
  ClosePercentage :: "int option"

text \<open>The errors of \<^verbatim>\<open>validateDecision\<close>, in the order of the source.\<close>

datatype validation_error =
    InvalidAction string
  | LeverageOutOfRange int string int
  | PositionSizeNotPositive real
  | BtcEthPositionTooLarge real real
  | AltcoinPositionTooLarge real real
  | StopLossNotPositive
  | TakeProfitCount nat
  | TakeProfitNotPositive nat real
  | LongStopNotBelowFirstTarget real real
  | LongTargetsNotIncreasing real real real
  | ShortStopNotAboveFirstTarget real real
  | ShortTargetsNotDecreasing real real real
  | RiskRewardTooLow real real real real real

section \<open>The decision validator\<close>

text \<open>
  \<^verbatim>\<open>validActions\<close> is a \<^verbatim>\<open>map[string]bool\<close>; reading a missing key gives
  \<^verbatim>\<open>false\<close>.
\<close>

definition validActions :: "string \<rightharpoonup> bool" where
  "validActions =
     [''open_long'' \<mapsto> True,
      ''open_short'' \<mapsto> True,
      ''close_long'' \<mapsto> True,
      ''close_short'' \<mapsto> True,
      ''hold'' \<mapsto> True,
      ''wait'' \<mapsto> True]"

definition lookupBool :: "(string \<rightharpoonup> bool) \<Rightarrow> string \<Rightarrow> bool" where
  "lookupBool m k = (case m k of None \<Rightarrow> False | Some b \<Rightarrow> b)"

text \<open>
  The loop over the take-profit levels: the first level that is not positive, with its
  1-based position.
\<close>

fun firstNonPositive :: "nat \<Rightarrow> real list \<Rightarrow> (nat \<times> real) option" where
  "firstNonPositive i [] = None"
| "firstNonPositive i (tp # tps) =
     (if tp \<le> 0 then Some (i + 1, tp) else firstNonPositive (i + 1) tps)"

text \<open>
  The local variables of the risk:reward block (lines 893 to 916), as functions of the
  action, the stop price and the first take-profit level.
\<close>

definition entryPrice :: "string \<Rightarrow> real \<Rightarrow> real \<Rightarrow> real" where
  "entryPrice act stop tp0 =
     (if act = ''open_long'' then stop + (tp0 - stop) * 0.2
      else stop - (stop - tp0) * 0.2)"

definition riskPercent :: "string \<Rightarrow> real \<Rightarrow> real \<Rightarrow> real" where
  "riskPercent act stop tp0 =
     (if act = ''open_long''
      then (entryPrice act stop tp0 - stop) / entryPrice act stop tp0 * 100
      else (stop - entryPrice act stop tp0) / entryPrice act stop tp0 * 100)"

definition rewardPercent :: "string \<Rightarrow> real \<Rightarrow> real \<Rightarrow> real" where
  "rewardPercent act stop tp0 =
     (if act = ''open_long''
      then (tp0 - entryPrice act stop tp0) / entryPrice act stop tp0 * 100
      else (entryPrice act stop tp0 - tp0) / entryPrice act stop tp0 * 100)"

text \<open>\<^verbatim>\<open>riskRewardRatio\<close> keeps its zero value unless the risk is positive.\<close>

definition riskRewardRatio :: "string \<Rightarrow> real \<Rightarrow> real \<Rightarrow> real" where
  "riskRewardRatio act stop tp0 =
     (if riskPercent act stop tp0 > 0
      then rewardPercent act stop tp0 / riskPercent act stop tp0
      else 0)"

text \<open>The last test of the block (line 919): the hard threshold on the ratio.\<close>

definition riskRewardCheck ::
  "real \<Rightarrow> real \<Rightarrow> real \<Rightarrow> real \<Rightarrow> real \<Rightarrow> validation_error + unit" where
  "riskRewardCheck ratio risk reward stop tp0 =
     (if ratio < 2.0 then Inl (RiskRewardTooLow ratio risk reward stop tp0)
      else Inr ())"

text \<open>
  The ceilings of an opening decision (lines 834 to 839): the local variables
  \<^verbatim>\<open>maxLeverage\<close> and \<^verbatim>\<open>maxPositionValue\<close>, as functions of the symbol.
\<close>

definition maxLeverage :: "string \<Rightarrow> int \<Rightarrow> int \<Rightarrow> int" where
  "maxLeverage symbol btcEthLeverage altcoinLeverage =
     (if symbol = ''BTCUSDT'' \<or> symbol = ''ETHUSDT'' then btcEthLeverage
      else altcoinLeverage)"

definition maxPositionValue :: "string \<Rightarrow> real \<Rightarrow> real" where
  "maxPositionValue symbol accountEquity =
     (if symbol = ''BTCUSDT'' \<or> symbol = ''ETHUSDT'' then accountEquity * 10
      else accountEquity * 1.5)"

text \<open>
  The checks on the prices of an opening decision (lines 857 to 922). After the test on
  the number of levels the source reads the levels at the indices 0, 1 and 2.
\<close>

definition validatePrices :: "Decision \<Rightarrow> validation_error + unit" where
  "validatePrices d =
     (if StopLoss d \<le> 0 then Inl StopLossNotPositive
      else if length (TakeProfitLevels d) \<noteq> 3
        then Inl (TakeProfitCount (length (TakeProfitLevels d)))
      else case firstNonPositive 0 (TakeProfitLevels d) of
        Some (i, tp) \<Rightarrow> Inl (TakeProfitNotPositive i tp)
      | None \<Rightarrow>
         (let tp0 = TakeProfitLevels d ! 0;
              tp1 = TakeProfitLevels d ! 1;
              tp2 = TakeProfitLevels d ! 2;
              checkRatio =
                riskRewardCheck
                  (riskRewardRatio (Action d) (StopLoss d) tp0)
                  (riskPercent (Action d) (StopLoss d) tp0)
                  (rewardPercent (Action d) (StopLoss d) tp0)
                  (StopLoss d) tp0
          in if Action d = ''open_long'' then
               (if StopLoss d \<ge> tp0
                  then Inl (LongStopNotBelowFirstTarget (StopLoss d) tp0)
                else if tp0 \<ge> tp1 \<or> tp1 \<ge> tp2
                  then Inl (LongTargetsNotIncreasing tp0 tp1 tp2)
                else checkRatio)
             else
               (if StopLoss d \<le> tp0
                  then Inl (ShortStopNotAboveFirstTarget (StopLoss d) tp0)
                else if tp0 \<le> tp1 \<or> tp1 \<le> tp2
                  then Inl (ShortTargetsNotDecreasing tp0 tp1 tp2)
                else checkRatio)))"

text \<open>
  \<^verbatim>\<open>validateDecision(d, accountEquity, btcEthLeverage, altcoinLeverage)\<close>: the test
  of the action, then for an opening decision the leverage, the position size and its
  cap with a tolerance of one percent, then the prices.
\<close>

definition validateDecision ::
  "Decision \<Rightarrow> real \<Rightarrow> int \<Rightarrow> int \<Rightarrow> validation_error + unit" where
  "validateDecision d accountEquity btcEthLeverage altcoinLeverage =
     (if \<not> lookupBool validActions (Action d) then Inl (InvalidAction (Action d))
      else if Action d = ''open_long'' \<or> Action d = ''open_short'' then
        (let maxLev = maxLeverage (Symbol d) btcEthLeverage altcoinLeverage;
             maxVal = maxPositionValue (Symbol d) accountEquity;
             tolerance = maxVal * 0.01
         in if Leverage d \<le> 0 \<or> Leverage d > maxLev
              then Inl (LeverageOutOfRange maxLev (Symbol d) (Leverage d))
            else if PositionSizeUSD d \<le> 0
              then Inl (PositionSizeNotPositive (PositionSizeUSD d))
            else if PositionSizeUSD d > maxVal + tolerance
              then (if Symbol d = ''BTCUSDT'' \<or> Symbol d = ''ETHUSDT''
                    then Inl (BtcEthPositionTooLarge maxVal (PositionSizeUSD d))
                    else Inl (AltcoinPositionTooLarge maxVal (PositionSizeUSD d)))
            else validatePrices d)
      else Inr ())"




section \<open>Functions of the standard library, on byte strings\<close>

text \<open>
  \<^verbatim>\<open>strings.Index(s, substr)\<close>: the index of the first instance of \<open>substr\<close> in
  \<open>s\<close>, or -1.
\<close>

fun indexFrom :: "string \<Rightarrow> string \<Rightarrow> int \<Rightarrow> int" where
  "indexFrom substr [] i = (if substr = [] then i else -1)"
| "indexFrom substr (c # cs) i =
     (if prefix substr (c # cs) then i else indexFrom substr cs (i + 1))"

definition Index :: "string \<Rightarrow> string \<Rightarrow> int" where
  "Index s substr = indexFrom substr s 0"

text \<open>
  \<^verbatim>\<open>strings.ReplaceAll(s, old, new)\<close>: every non-overlapping instance of \<open>old\<close>,
  from the left, replaced by \<open>new\<close>. The source passes non-empty patterns only; the
  empty pattern, for which the library inserts \<open>new\<close> around every code point, is not
  modelled and leaves the string as it is.
\<close>

fun ReplaceAll :: "string \<Rightarrow> string \<Rightarrow> string \<Rightarrow> string" where
  "ReplaceAll [] old new = []"
| "ReplaceAll (c # cs) old new =
     (if old \<noteq> [] \<and> prefix old (c # cs)
      then new @ ReplaceAll (drop (length old - 1) cs) old new
      else c # ReplaceAll cs old new)"

text \<open>
  \<^verbatim>\<open>strings.TrimSpace(s)\<close>: \<open>s\<close> without its leading and trailing white space, as
  Unicode defines it. The white-space code points are the six ASCII ones (tab, line feed,
  vertical tab, form feed, carriage return, space) and U+0085, U+00A0, U+1680, U+2000 to
  U+200A, U+2028, U+2029, U+202F, U+205F and U+3000, here in their UTF-8 encoding.
\<close>

definition whiteSpace :: "string list" where
  "whiteSpace =
     [[CHR 0x09], [CHR 0x0A], [CHR 0x0B], [CHR 0x0C], [CHR 0x0D], [CHR 0x20],
      [CHR 0xC2, CHR 0x85], [CHR 0xC2, CHR 0xA0],
      [CHR 0xE1, CHR 0x9A, CHR 0x80],
      [CHR 0xE2, CHR 0x80, CHR 0x80], [CHR 0xE2, CHR 0x80, CHR 0x81],
      [CHR 0xE2, CHR 0x80, CHR 0x82], [CHR 0xE2, CHR 0x80, CHR 0x83],
      [CHR 0xE2, CHR 0x80, CHR 0x84], [CHR 0xE2, CHR 0x80, CHR 0x85],
      [CHR 0xE2, CHR 0x80, CHR 0x86], [CHR 0xE2, CHR 0x80, CHR 0x87],
      [CHR 0xE2, CHR 0x80, CHR 0x88], [CHR 0xE2, CHR 0x80, CHR 0x89],
      [CHR 0xE2, CHR 0x80, CHR 0x8A],
      [CHR 0xE2, CHR 0x80, CHR 0xA8], [CHR 0xE2, CHR 0x80, CHR 0xA9],
      [CHR 0xE2, CHR 0x80, CHR 0xAF],
      [CHR 0xE2, CHR 0x81, CHR 0x9F],
      [CHR 0xE3, CHR 0x80, CHR 0x80]]"

text \<open>
  The number of bytes of the white-space code point that \<open>s\<close> starts with, 0 when it
  starts with none; \<open>ws\<close> lists the encodings looked for.
\<close>

definition spaceWidth :: "string list \<Rightarrow> string \<Rightarrow> nat" where
  "spaceWidth ws s = (case find (\<lambda>w. prefix w s) ws of None \<Rightarrow> 0 | Some w \<Rightarrow> length w)"

fun dropSpaces :: "string list \<Rightarrow> string \<Rightarrow> string" where
  "dropSpaces ws [] = []"
| "dropSpaces ws (c # cs) =
     (case spaceWidth ws (c # cs) of
        0 \<Rightarrow> c # cs
      | Suc n \<Rightarrow> dropSpaces ws (drop n cs))"

text \<open>
  The trailing white space is the leading white space of the reversed string, each
  encoding read backwards.
\<close>

definition TrimSpace :: "string \<Rightarrow> string" where
  "TrimSpace s = rev (dropSpaces (map rev whiteSpace) (rev (dropSpaces whiteSpace s)))"

section \<open>Splitting the response and extracting the payload\<close>

text \<open>
  \<^verbatim>\<open>extractCoTTrace\<close>. The slice \<^verbatim>\<open>response[:jsonStart]\<close> is taken for
  \<open>0 < jsonStart\<close>, an index into the string, so it is in range.
\<close>

definition extractCoTTrace :: "string \<Rightarrow> string" where
  "extractCoTTrace response =
     (let jsonStart = Index response ''[''
      in if jsonStart > 0 then TrimSpace (take (nat jsonStart) response)
         else TrimSpace response)"

text \<open>
  The loop of \<^verbatim>\<open>findMatchingBracket\<close>: \<open>cs\<close> holds the bytes from index \<open>i\<close> on.
\<close>

fun scanBrackets :: "string \<Rightarrow> int \<Rightarrow> int \<Rightarrow> int" where
  "scanBrackets [] i depth = -1"
| "scanBrackets (c # cs) i depth =
     (if c = CHR ''['' then scanBrackets cs (i + 1) (depth + 1)
      else if c = CHR '']'' then
        (if depth - 1 = 0 then i else scanBrackets cs (i + 1) (depth - 1))
      else scanBrackets cs (i + 1) depth)"

text \<open>
  \<^verbatim>\<open>findMatchingBracket(s, start)\<close>. \<open>None\<close> stands for the run-time panic of
  \<^verbatim>\<open>s[start]\<close> at a negative index.
\<close>

definition findMatchingBracket :: "string \<Rightarrow> int \<Rightarrow> int option" where
  "findMatchingBracket s start =
     (if start \<ge> int (length s) then Some (-1)
      else if start < 0 then None
      else if s ! nat start \<noteq> CHR ''['' then Some (-1)
      else Some (scanBrackets (drop (nat start) s) start 0))"

text \<open>
  \<^verbatim>\<open>fixMissingQuotes\<close>. The four patterns are the UTF-8 encodings of U+201C,
  U+201D, U+2018 and U+2019; they are replaced, in this order, by the ASCII double quote
  (0x22) and the ASCII single quote (0x27).
\<close>

definition leftDouble :: string where "leftDouble = [CHR 0xE2, CHR 0x80, CHR 0x9C]"

definition rightDouble :: string where "rightDouble = [CHR 0xE2, CHR 0x80, CHR 0x9D]"

definition leftSingle :: string where "leftSingle = [CHR 0xE2, CHR 0x80, CHR 0x98]"

definition rightSingle :: string where "rightSingle = [CHR 0xE2, CHR 0x80, CHR 0x99]"

definition fixMissingQuotes :: "string \<Rightarrow> string" where
  "fixMissingQuotes jsonStr =
     (let s1 = ReplaceAll jsonStr leftDouble [CHR 0x22];
          s2 = ReplaceAll s1 rightDouble [CHR 0x22];
          s3 = ReplaceAll s2 leftSingle [CHR 0x27];
          s4 = ReplaceAll s3 rightSingle [CHR 0x27]
      in s4)"






section \<open>The context assembler\<close>

record PositionInfo =
  pos_Symbol :: string
  Side :: string
  EntryPrice :: real
  MarkPrice :: real
  Quantity :: real
  pos_Leverage :: int
  UnrealizedPnL :: real
  UnrealizedPnLPct :: real
  LiquidationPrice :: real
  pos_MarginUsed :: real
  UpdateTime :: int

record AccountInfo =
  TotalEquity :: real
  AvailableBalance :: real
  TotalPnL :: real
  TotalPnLPct :: real
  MarginUsed :: real
  MarginUsedPct :: real
  PositionCount :: int

record CandidateCoin =
  coin_Symbol :: string
  Sources :: "string list"

record OITopData =
  Rank :: int
  OIDeltaPercent :: real
  OIDeltaValue :: real
  PriceDeltaPercent :: real
  NetLong :: real
  NetShort :: real

text \<open>
  The types \<^verbatim>\<open>market.Data\<close> and \<^verbatim>\<open>pool.OIPosition\<close> are declared in other
  packages; the records hold the fields that \<^verbatim>\<open>fetchMarketDataForContext\<close> reads.
  \<^verbatim>\<open>OpenInterest\<close> is a pointer, \<open>None\<close> when nil.
\<close>

record OIData =
  Latest :: real

record market_Data =
  CurrentPrice :: real
  OpenInterest :: "OIData option"

record OIPosition =
  oi_Symbol :: string
  oi_Rank :: int
  oi_OIDeltaPercent :: real
  oi_OIDeltaValue :: real
  oi_PriceDeltaPercent :: real
  oi_NetLong :: real
  oi_NetShort :: real

record Context =
  CurrentTime :: string
  RuntimeMinutes :: int
  CallCount :: int
  Account :: AccountInfo
  Positions :: "PositionInfo list"
  CandidateCoins :: "CandidateCoin list"
  MarketDataMap :: "string \<rightharpoonup> market_Data"
  OITopDataMap :: "string \<rightharpoonup> OITopData"
  BTCETHLeverage :: int
  AltcoinLeverage :: int

definition calculateMaxCandidates :: "Context \<Rightarrow> nat" where
  "calculateMaxCandidates ctx = length (CandidateCoins ctx)"

text \<open>
  The key sets of the two \<^verbatim>\<open>map[string]bool\<close> of the function: the symbols to fetch
  (positions, then the candidates before index \<^verbatim>\<open>maxCandidates\<close>) and the symbols of
  the positions.
\<close>

definition symbolSet :: "Context \<Rightarrow> string set" where
  "symbolSet ctx =
     set (map pos_Symbol (Positions ctx)) \<union>
     set (map coin_Symbol (take (calculateMaxCandidates ctx) (CandidateCoins ctx)))"

definition positionSymbols :: "Context \<Rightarrow> string set" where
  "positionSymbols ctx = set (map pos_Symbol (Positions ctx))"

text \<open>
  The body of the loop over the symbols (lines 163 to 186), on the map built so far. The
  call \<^verbatim>\<open>market.Get\<close> is a parameter: it gives the data of a symbol or the text of
  an error.
\<close>

definition fetchSymbol ::
  "(string \<Rightarrow> string + market_Data) \<Rightarrow> string set \<Rightarrow> (string \<rightharpoonup> market_Data) \<Rightarrow> string
     \<Rightarrow> (string \<rightharpoonup> market_Data)" where
  "fetchSymbol marketGet positions m symbol =
     (case marketGet symbol of
        Inl err \<Rightarrow> m
      | Inr data \<Rightarrow>
          (let isExistingPosition = (symbol \<in> positions);
               tooLow =
                 (case OpenInterest data of
                    None \<Rightarrow> False
                  | Some oi \<Rightarrow>
                      CurrentPrice data > 0 \<and>
                      (let oiValue = Latest oi * CurrentPrice data;
                           oiValueInMillions = oiValue / 1000000
                       in oiValueInMillions < 15))
           in if \<not> isExistingPosition \<and> tooLow then m else m(symbol \<mapsto> data)))"

text \<open>The body of the loop over the open-interest ranking (lines 191 to 202).\<close>

definition mergeOITop :: "(string \<rightharpoonup> OITopData) \<Rightarrow> OIPosition \<Rightarrow> (string \<rightharpoonup> OITopData)" where
  "mergeOITop m pos =
     m(oi_Symbol pos \<mapsto>
         \<lparr>Rank = oi_Rank pos, OIDeltaPercent = oi_OIDeltaPercent pos,
          OIDeltaValue = oi_OIDeltaValue pos,
          PriceDeltaPercent = oi_PriceDeltaPercent pos,
          NetLong = oi_NetLong pos, NetShort = oi_NetShort pos\<rparr>)"

text \<open>
  \<^verbatim>\<open>fetchMarketDataForContext\<close>, which always returns the nil error; the model returns
  the context it has written. A Go map is read in no fixed order: \<open>order\<close> is the order
  in which the loop meets the keys of \<^verbatim>\<open>symbolSet\<close>, any list with
  \<open>set order = symbolSet ctx\<close>. \<open>oiTop\<close> is the result of
  \<^verbatim>\<open>pool.GetOITopPositions\<close>.
\<close>

definition fetchMarketDataForContext ::
  "(string \<Rightarrow> string + market_Data) \<Rightarrow> (string + OIPosition list) \<Rightarrow> string list
     \<Rightarrow> Context \<Rightarrow> Context" where
  "fetchMarketDataForContext marketGet oiTop order ctx =
     ctx\<lparr>MarketDataMap :=
           foldl (fetchSymbol marketGet (positionSymbols ctx)) Map.empty order,
         OITopDataMap :=
           (case oiTop of
              Inl err \<Rightarrow> Map.empty
            | Inr oiPositions \<Rightarrow> foldl mergeOITop Map.empty oiPositions)\<rparr>"

section \<open>The invariants of an accepted opening decision, as the specification words them\<close>






section \<open>Example records\<close>








section \<open>Notions of the specification\<close>

text \<open>
  The depth of the brackets: \<open>depthAt s start i\<close> is the number of array-start markers
  minus the number of array-end markers among the bytes of \<open>s\<close> from index \<open>start\<close>
  to index \<open>i\<close>, both included.
\<close>

definition bracketBalance :: "string \<Rightarrow> int" where
  "bracketBalance xs = int (count_list xs CHR ''['') - int (count_list xs CHR '']'')"

definition depthAt :: "string \<Rightarrow> nat \<Rightarrow> nat \<Rightarrow> int" where
  "depthAt s start i = bracketBalance (take (i + 1 - start) (drop start s))"

text \<open>
  Text as a sequence of code points, each in its UTF-8 encoding: a lead byte that fixes
  the number of bytes (1 to 4), followed by continuation bytes (0x80 to 0xBF). The
  normal form of a code point: the ASCII double quote for U+201C and U+201D, the ASCII
  single quote for U+2018 and U+2019, the code point itself otherwise.
\<close>

definition continuationByte :: "char \<Rightarrow> bool" where
  "continuationByte c \<longleftrightarrow> 0x80 \<le> (of_char c :: nat) \<and> (of_char c :: nat) < 0xC0"

definition encodedLength :: "char \<Rightarrow> nat" where
  "encodedLength c =
     (let n = (of_char c :: nat)
      in if n < 0x80 then 1 else if n < 0xC0 then 0 else if n < 0xE0 then 2
         else if n < 0xF0 then 3 else if n < 0xF8 then 4 else 0)"

definition utf8Char :: "string \<Rightarrow> bool" where
  "utf8Char bs \<longleftrightarrow>
     (case bs of
        [] \<Rightarrow> False
      | lead # rest \<Rightarrow> length bs = encodedLength lead \<and> list_all continuationByte rest)"

definition normalizeChar :: "string \<Rightarrow> string" where
  "normalizeChar bs =
     (if bs = leftDouble \<or> bs = rightDouble then [CHR 0x22]
      else if bs = leftSingle \<or> bs = rightSingle then [CHR 0x27]
      else bs)"



section \<open>Example batches, texts and contexts\<close>




text \<open>The payload of section 8 of the specification, and a text with typographic quotes.\<close>

definition nested_payload :: string where
  "nested_payload =
     ''[{'' @ [CHR 0x22] @ ''a'' @ [CHR 0x22] @ '':[1,2]},{'' @ [CHR 0x22] @ ''b''
       @ [CHR 0x22] @ '':3}]''"

definition quoted_text :: "string list" where
  "quoted_text =
     [''{'', leftDouble, ''a'', rightDouble, '':'', leftSingle,
      [CHR 0xE4, CHR 0xB8, CHR 0xAD], [CHR 0xE2, CHR 0x80, CHR 0x9E], rightSingle, ''}'']"

text \<open>
  A context with one position and four candidates, and a market whose notional open
  interest is 15,000,000 for SOLUSDT, 14,999,999 for XRPUSDT and 1,000 for the position
  DOGEUSDT; NILUSDT has no open-interest record and ZEROUSDT a price of zero.
\<close>

definition zeroAccount :: AccountInfo where
  "zeroAccount =
     \<lparr>TotalEquity = 0, AvailableBalance = 0, TotalPnL = 0, TotalPnLPct = 0,
      MarginUsed = 0, MarginUsedPct = 0, PositionCount = 0\<rparr>"

definition doge_position :: PositionInfo where
  "doge_position =
     \<lparr>pos_Symbol = ''DOGEUSDT'', Side = ''long'', EntryPrice = 1, MarkPrice = 1,
      Quantity = 10, pos_Leverage = 3, UnrealizedPnL = 0, UnrealizedPnLPct = 0,
      LiquidationPrice = 0, pos_MarginUsed = 0, UpdateTime = 0\<rparr>"

definition example_context :: Context where
  "example_context =
     \<lparr>CurrentTime = [], RuntimeMinutes = 0, CallCount = 0, Account = zeroAccount,
      Positions = [doge_position],
      CandidateCoins =
        [\<lparr>coin_Symbol = ''SOLUSDT'', Sources = [''ai500'']\<rparr>,
         \<lparr>coin_Symbol = ''XRPUSDT'', Sources = [''oi_top'']\<rparr>,
         \<lparr>coin_Symbol = ''NILUSDT'', Sources = [''ai500'']\<rparr>,
         \<lparr>coin_Symbol = ''ZEROUSDT'', Sources = [''ai500'']\<rparr>],
      MarketDataMap = Map.empty, OITopDataMap = Map.empty,
      BTCETHLeverage = 5, AltcoinLeverage = 5\<rparr>"


definition example_order :: "string list" where
  "example_order = [''XRPUSDT'', ''ZEROUSDT'', ''DOGEUSDT'', ''NILUSDT'', ''SOLUSDT'']"

definition example_market :: "string \<Rightarrow> string + market_Data" where
  "example_market symbol =
     (if symbol = ''SOLUSDT''
        then Inr \<lparr>CurrentPrice = 150, OpenInterest = Some \<lparr>Latest = 100000\<rparr>\<rparr>
      else if symbol = ''XRPUSDT''
        then Inr \<lparr>CurrentPrice = 1, OpenInterest = Some \<lparr>Latest = 14999999\<rparr>\<rparr>
      else if symbol = ''DOGEUSDT''
        then Inr \<lparr>CurrentPrice = 1, OpenInterest = Some \<lparr>Latest = 1000\<rparr>\<rparr>
      else if symbol = ''NILUSDT''
        then Inr \<lparr>CurrentPrice = 2, OpenInterest = None\<rparr>
      else if symbol = ''ZEROUSDT''
        then Inr \<lparr>CurrentPrice = 0, OpenInterest = Some \<lparr>Latest = 5\<rparr>\<rparr>
      else Inl ''no data'')"

section \<open>Properties of the validator\<close>

lemma validActions_iff:
  "lookupBool validActions a \<longleftrightarrow>
     a \<in> {''open_long'', ''open_short'', ''close_long'', ''close_short'', ''hold'', ''wait''}"
  by (simp add: lookupBool_def validActions_def)

text \<open>
  Claim C1. The set of recognised actions is exactly open_long, open_short, close_long,
  close_short, hold and wait. A record whose action is update_stop or partial_close is
  rejected with the invalid-action error, whatever its other fields hold: also when the
  symbol and the new stop price, or the symbol and the close percentage, are present.
\<close>

theorem update_stop_partial_close_rejected:
  "(\<forall>a. lookupBool validActions a \<longleftrightarrow>
        a = ''open_long'' \<or> a = ''open_short'' \<or> a = ''close_long'' \<or>
        a = ''close_short'' \<or> a = ''hold'' \<or> a = ''wait'')
   \<and> validateDecision (d\<lparr>Action := ''update_stop''\<rparr>) eq b a
       = Inl (InvalidAction ''update_stop'')
   \<and> validateDecision (d\<lparr>Action := ''partial_close''\<rparr>) eq b a
       = Inl (InvalidAction ''partial_close'')"
  by (simp add: validateDecision_def validActions_iff)


lemma firstNonPositive_three:
  "firstNonPositive 0 [a, b, c] = None \<longleftrightarrow> 0 < a \<and> 0 < b \<and> 0 < c"
  by auto































section \<open>Properties of the batch validation and of the response parser\<close>














section \<open>Properties of the response splitter\<close>

text \<open>
  Claim C5. A response that begins with the array-start marker has the index 0, which
  the test \<open>jsonStart > 0\<close> sends to the branch of the response without a marker: the
  rationale is the whole response, trimmed, and not the empty string. For the response
  \<^verbatim>\<open>[]\<close> the index is 0, the trimmed text before the marker is empty, and the
  rationale returned is \<^verbatim>\<open>[]\<close>.
\<close>

theorem extractCoTTrace_leading_bracket:
  "extractCoTTrace (CHR ''['' # rest) = TrimSpace (CHR ''['' # rest) \<and>
   Index ''[]'' ''['' = 0 \<and>
   TrimSpace (take (nat (Index ''[]'' ''['')) ''[]'') = [] \<and>
   extractCoTTrace ''[]'' = ''[]''"
  by (simp add: extractCoTTrace_def Index_def TrimSpace_def whiteSpace_def spaceWidth_def)

section \<open>Properties of the bracket-balanced extractor\<close>

lemma bracketBalance_Cons:
  "bracketBalance (c # cs) =
     (if c = CHR ''['' then 1 else if c = CHR '']'' then -1 else 0) + bracketBalance cs"
  by (simp add: bracketBalance_def)

lemma bracketBalance_Nil: "bracketBalance [] = 0"
  by (simp add: bracketBalance_def)

lemma scanBrackets_spec:
  assumes "0 < depth" and "0 \<le> i"
  shows "(scanBrackets cs i depth = -1 \<and>
            (\<forall>k<length cs. depth + bracketBalance (take (Suc k) cs) > 0))
         \<or> (\<exists>k<length cs. scanBrackets cs i depth = i + int k \<and> cs ! k = CHR '']'' \<and>
               depth + bracketBalance (take (Suc k) cs) = 0 \<and>
               (\<forall>j<k. depth + bracketBalance (take (Suc j) cs) > 0))"
  using assms
proof (induction cs arbitrary: i depth)
  case Nil
  then show ?case by simp
next
  case (Cons c cs)
  show ?case
  proof (cases "c = CHR '']'' \<and> depth = 1")
    case True
    then have "scanBrackets (c # cs) i depth = i + int 0 \<and> (c # cs) ! 0 = CHR '']'' \<and>
        depth + bracketBalance (take (Suc 0) (c # cs)) = 0"
      by (simp add: bracketBalance_Cons bracketBalance_Nil)
    then show ?thesis by blast
  next
    case False
    define d where "d = depth + (if c = CHR ''['' then 1 else if c = CHR '']'' then -1 else 0)"
    from False Cons.prems have d: "0 < d" by (auto simp: d_def)
    from False have step: "scanBrackets (c # cs) i depth = scanBrackets cs (i + 1) d"
      by (auto simp: d_def)
    have bal: "depth + bracketBalance (take (Suc k) (c # cs)) = d + bracketBalance (take k cs)" for k
      by (simp add: d_def bracketBalance_Cons)
    from Cons.prems have i: "0 \<le> i + 1" by simp
    from Cons.IH [OF d i] show ?thesis
    proof (elim disjE conjE exE)
      assume none: "scanBrackets cs (i + 1) d = - 1"
        and all: "\<forall>k<length cs. 0 < d + bracketBalance (take (Suc k) cs)"
      have "\<forall>k<length (c # cs). 0 < depth + bracketBalance (take (Suc k) (c # cs))"
        unfolding bal using d all
        by (auto simp: less_Suc_eq_0_disj bracketBalance_Nil)
      with none step show ?thesis by simp
    next
      fix k
      assume k: "k < length cs"
        and res: "scanBrackets cs (i + 1) d = i + 1 + int k"
        and close: "cs ! k = CHR '']''"
        and zero: "d + bracketBalance (take (Suc k) cs) = 0"
        and before: "\<forall>j<k. 0 < d + bracketBalance (take (Suc j) cs)"
      have "\<forall>j<Suc k. 0 < depth + bracketBalance (take (Suc j) (c # cs))"
        unfolding bal using d before
        by (auto simp: less_Suc_eq_0_disj bracketBalance_Nil)
      moreover have "Suc k < length (c # cs)" using k by simp
      moreover have "scanBrackets (c # cs) i depth = i + int (Suc k)"
        using step res by simp
      moreover have "(c # cs) ! Suc k = CHR '']''" using close by simp
      moreover have "depth + bracketBalance (take (Suc (Suc k)) (c # cs)) = 0"
        unfolding bal using zero .
      ultimately show ?thesis by blast
    qed
  qed
qed


lemma depthAt_start:
  assumes "n < length s" and "s ! n = CHR ''[''" and "n \<le> i"
  shows "depthAt s n i = 1 + bracketBalance (take (i - n) (drop (Suc n) s))"
proof -
  from assms have "drop n s = CHR ''['' # drop (Suc n) s"
    using Cons_nth_drop_Suc [of n s] by simp
  moreover from assms have "i + 1 - n = Suc (i - n)" by simp
  ultimately show ?thesis
    by (simp add: depthAt_def bracketBalance_Cons)
qed

text \<open>
  Claim C6. Started at the index of an array-start marker, the extractor returns either
  -1, and then the depth is positive at every index from the start to the end of the
  string, or the index of an array-end marker after the start at which the depth is zero,
  the depth being positive at every index before it. For the payload
  \<^verbatim>\<open>[{"a":[1,2]},{"b":3}]\<close> from index 0 it returns 20, the index of the last byte,
  not 10, the index of the first array-end marker.
\<close>

theorem findMatchingBracket_depth:
  "(0 \<le> start \<and> start < int (length s) \<and> s ! nat start = CHR ''['' \<longrightarrow>
      (\<exists>e. findMatchingBracket s start = Some e \<and>
         (e = -1 \<longrightarrow>
            (\<forall>i. nat start \<le> i \<and> i < length s \<longrightarrow> 0 < depthAt s (nat start) i)) \<and>
         (e \<noteq> -1 \<longrightarrow>
            start < e \<and> e < int (length s) \<and> s ! nat e = CHR '']'' \<and>
            depthAt s (nat start) (nat e) = 0 \<and>
            (\<forall>i. nat start \<le> i \<and> i < nat e \<longrightarrow> 0 < depthAt s (nat start) i)))) \<and>
   findMatchingBracket nested_payload 0 = Some 20 \<and>
   nested_payload ! 10 = CHR '']'' \<and> length nested_payload = 21"
proof (intro conjI impI)
  assume pre: "0 \<le> start \<and> start < int (length s) \<and> s ! nat start = CHR ''[''"
  define n where "n = nat start"
  define cs where "cs = drop (Suc n) s"
  from pre have n: "n < length s" "s ! n = CHR ''[''" "start = int n"
    by (auto simp: n_def)
  then have drop: "drop n s = CHR ''['' # cs"
    using Cons_nth_drop_Suc [of n s] by (simp add: cs_def)
  have len: "length cs = length s - Suc n" by (simp add: cs_def)
  have depth: "depthAt s n i = 1 + bracketBalance (take (i - n) cs)" if "n \<le> i" for i
    unfolding cs_def using n(1,2) that by (rule depthAt_start)
  have res: "findMatchingBracket s start = Some (scanBrackets cs (start + 1) 1)"
    using pre drop by (simp add: findMatchingBracket_def n_def [symmetric])
  from pre have i: "0 \<le> start + 1" by simp
  have one: "0 < (1::int)" by simp
  from scanBrackets_spec [OF one i, of cs]
  show "\<exists>e. findMatchingBracket s start = Some e \<and>
         (e = -1 \<longrightarrow>
            (\<forall>i. nat start \<le> i \<and> i < length s \<longrightarrow> 0 < depthAt s (nat start) i)) \<and>
         (e \<noteq> -1 \<longrightarrow>
            start < e \<and> e < int (length s) \<and> s ! nat e = CHR '']'' \<and>
            depthAt s (nat start) (nat e) = 0 \<and>
            (\<forall>i. nat start \<le> i \<and> i < nat e \<longrightarrow> 0 < depthAt s (nat start) i))"
  proof (elim disjE conjE exE)
    assume none: "scanBrackets cs (start + 1) 1 = - 1"
      and all: "\<forall>k<length cs. 0 < 1 + bracketBalance (take (Suc k) cs)"
    have "0 < depthAt s n i" if i: "n \<le> i \<and> i < length s" for i
    proof (cases "i = n")
      case True
      then show ?thesis by (simp add: depth bracketBalance_Nil)
    next
      case False
      with i obtain k where k: "i - n = Suc k" "k < length cs"
        by (cases "i - n") (auto simp: len)
      with all show ?thesis using i by (simp add: depth)
    qed
    with none res show ?thesis by (simp add: n_def)
  next
    fix k
    assume k: "k < length cs"
      and found: "scanBrackets cs (start + 1) 1 = start + 1 + int k"
      and close: "cs ! k = CHR '']''"
      and zero: "1 + bracketBalance (take (Suc k) cs) = 0"
      and before: "\<forall>j<k. 0 < 1 + bracketBalance (take (Suc j) cs)"
    define e where "e = start + 1 + int k"
    have e: "nat e = n + Suc k" by (simp add: e_def n(3))
    have "e \<noteq> -1" "start < e" using pre by (simp_all add: e_def)
    moreover have "e < int (length s)" using k len n by (simp add: e_def)
    moreover have "s ! nat e = CHR '']''"
      using close k len by (simp add: e cs_def)
    moreover have "depthAt s n (nat e) = 0"
      using zero by (simp add: depth e)
    moreover have "0 < depthAt s n i" if i: "n \<le> i \<and> i < nat e" for i
    proof (cases "i = n")
      case True
      then show ?thesis by (simp add: depth bracketBalance_Nil)
    next
      case False
      with i obtain j where j: "i - n = Suc j" "j < k"
        by (cases "i - n") (auto simp: e)
      with before show ?thesis using i by (simp add: depth)
    qed
    ultimately show ?thesis using res found by (simp add: e_def n_def)
  qed
qed (simp_all add: nested_payload_def findMatchingBracket_def)

theorem findMatchingBracket_depth_witness:
  "(0::int) \<le> 3 \<and> 3 < int (length ''ab [[x]] c'') \<and> ''ab [[x]] c'' ! nat 3 = CHR ''['' \<and>
   findMatchingBracket ''ab [[x]] c'' 3 = Some 7 \<and>
   ''ab [[x]] c'' ! 7 = CHR '']'' \<and> depthAt ''ab [[x]] c'' 3 7 = 0 \<and>
   depthAt ''ab [[x]] c'' 3 6 = 1 \<and>
   findMatchingBracket ''[[x] c'' 0 = Some (-1) \<and> depthAt ''[[x] c'' 0 5 = 1"
  using findMatchingBracket_depth [of 3 "''ab [[x]] c''"]
    findMatchingBracket_depth [of 0 "''[[x] c''"]
  by (simp add: findMatchingBracket_def depthAt_def bracketBalance_def)


section \<open>Properties of the payload normalizer\<close>

lemma sublist_of_prefix: "prefix q s \<Longrightarrow> sublist q s"
  by (auto simp: prefix_def)

lemma sublist_of_drop: "sublist q (drop n s) \<Longrightarrow> sublist q s"
  using sublist_drop [of n s] sublist_order.order_trans by blast

lemma ReplaceAll_absent: "\<not> sublist old s \<Longrightarrow> ReplaceAll s old new = s"
proof (induction s)
  case Nil
  then show ?case by simp
next
  case (Cons c cs)
  then have "\<not> prefix old (c # cs)" "\<not> sublist old cs"
    by (auto simp: sublist_Cons_right)
  with Cons.IH show ?case by simp
qed

lemma prefix_ReplaceAll:
  "prefix q (ReplaceAll s old [r]) \<Longrightarrow> r \<notin> set q \<Longrightarrow> prefix q s"
proof (induction s arbitrary: q)
  case Nil
  then show ?case by simp
next
  case (Cons c cs)
  show ?case
  proof (cases q)
    case Nil
    then show ?thesis by simp
  next
    case (Cons x q')
    with Cons.prems Cons.IH [of q'] show ?thesis
      by (auto split: if_splits)
  qed
qed

lemma sublist_ReplaceAll:
  "sublist q (ReplaceAll s old [r]) \<Longrightarrow> r \<notin> set q \<Longrightarrow> sublist q s"
proof (induction s old "[r]" rule: ReplaceAll.induct)
  case (1 old)
  then show ?case by simp
next
  case (2 c cs old)
  show ?case
  proof (cases "old \<noteq> [] \<and> prefix old (c # cs)")
    case True
    with "2.prems" have "prefix q (r # ReplaceAll (drop (length old - 1) cs) old [r])
        \<or> sublist q (ReplaceAll (drop (length old - 1) cs) old [r])"
      by (simp add: sublist_Cons_right)
    then show ?thesis
    proof
      assume "prefix q (r # ReplaceAll (drop (length old - 1) cs) old [r])"
      with "2.prems"(2) have "q = []" by (cases q) auto
      then show ?thesis by simp
    next
      assume "sublist q (ReplaceAll (drop (length old - 1) cs) old [r])"
      with "2.hyps"(1) [OF True] "2.prems"(2)
      have "sublist q (drop (length old - 1) cs)" by simp
      then have "sublist q cs" by (rule sublist_of_drop)
      then show ?thesis by (simp add: sublist_Cons_right)
    qed
  next
    case False
    with "2.prems" have "prefix q (c # ReplaceAll cs old [r]) \<or> sublist q (ReplaceAll cs old [r])"
      by (auto simp: sublist_Cons_right)
    then show ?thesis
    proof
      assume "prefix q (c # ReplaceAll cs old [r])"
      with False have "prefix q (ReplaceAll (c # cs) old [r])" by auto
      then have "prefix q (c # cs)" using "2.prems"(2) by (rule prefix_ReplaceAll)
      then show ?thesis by (rule sublist_of_prefix)
    next
      assume "sublist q (ReplaceAll cs old [r])"
      with "2.hyps"(2) [OF False] "2.prems"(2) have "sublist q cs" by simp
      then show ?thesis by (simp add: sublist_Cons_right)
    qed
  qed
qed

lemma ReplaceAll_removes:
  "old \<noteq> [] \<Longrightarrow> r \<notin> set old \<Longrightarrow> \<not> sublist old (ReplaceAll s old [r])"
proof (induction s old "[r]" rule: ReplaceAll.induct)
  case (1 old)
  then show ?case by simp
next
  case (2 c cs old)
  from "2.prems" have hd: "\<not> prefix old (r # xs)" for xs
    by (cases old) auto
  show ?case
  proof (cases "old \<noteq> [] \<and> prefix old (c # cs)")
    case True
    with "2.hyps"(1) "2.prems"
    have "\<not> sublist old (ReplaceAll (drop (length old - 1) cs) old [r])" by simp
    with True hd show ?thesis by (simp add: sublist_Cons_right)
  next
    case False
    with "2.hyps"(2) "2.prems" have IH: "\<not> sublist old (ReplaceAll cs old [r])" by simp
    have "\<not> prefix old (c # ReplaceAll cs old [r])"
    proof
      assume "prefix old (c # ReplaceAll cs old [r])"
      with False have "prefix old (ReplaceAll (c # cs) old [r])" by auto
      then have "prefix old (c # cs)" using "2.prems"(2) by (rule prefix_ReplaceAll)
      with False "2.prems"(1) show False by simp
    qed
    with IH False show ?thesis by (auto simp: sublist_Cons_right)
  qed
qed

lemma fixMissingQuotes_alt:
  "fixMissingQuotes s =
     ReplaceAll (ReplaceAll (ReplaceAll (ReplaceAll s leftDouble [CHR 0x22]) rightDouble [CHR 0x22])
       leftSingle [CHR 0x27]) rightSingle [CHR 0x27]"
  by (simp add: fixMissingQuotes_def)

lemma fixMissingQuotes_free:
  "\<not> sublist leftDouble (fixMissingQuotes s)"
  "\<not> sublist rightDouble (fixMissingQuotes s)"
  "\<not> sublist leftSingle (fixMissingQuotes s)"
  "\<not> sublist rightSingle (fixMissingQuotes s)"
proof -
  define s1 where "s1 = ReplaceAll s leftDouble [CHR 0x22]"
  define s2 where "s2 = ReplaceAll s1 rightDouble [CHR 0x22]"
  define s3 where "s3 = ReplaceAll s2 leftSingle [CHR 0x27]"
  define s4 where "s4 = ReplaceAll s3 rightSingle [CHR 0x27]"
  have s4: "fixMissingQuotes s = s4"
    by (simp add: fixMissingQuotes_alt s1_def s2_def s3_def s4_def)
  have "\<not> sublist leftDouble s1"
    unfolding s1_def by (rule ReplaceAll_removes) (simp_all add: leftDouble_def)
  then have "\<not> sublist leftDouble s2"
    unfolding s2_def using sublist_ReplaceAll [of leftDouble s1 rightDouble "CHR 0x22"]
    by (auto simp: leftDouble_def)
  then have "\<not> sublist leftDouble s3"
    unfolding s3_def using sublist_ReplaceAll [of leftDouble s2 leftSingle "CHR 0x27"]
    by (auto simp: leftDouble_def)
  then show "\<not> sublist leftDouble (fixMissingQuotes s)"
    unfolding s4 s4_def using sublist_ReplaceAll [of leftDouble s3 rightSingle "CHR 0x27"]
    by (auto simp: leftDouble_def)
  have "\<not> sublist rightDouble s2"
    unfolding s2_def by (rule ReplaceAll_removes) (simp_all add: rightDouble_def)
  then have "\<not> sublist rightDouble s3"
    unfolding s3_def using sublist_ReplaceAll [of rightDouble s2 leftSingle "CHR 0x27"]
    by (auto simp: rightDouble_def)
  then show "\<not> sublist rightDouble (fixMissingQuotes s)"
    unfolding s4 s4_def using sublist_ReplaceAll [of rightDouble s3 rightSingle "CHR 0x27"]
    by (auto simp: rightDouble_def)
  have "\<not> sublist leftSingle s3"
    unfolding s3_def by (rule ReplaceAll_removes) (simp_all add: leftSingle_def)
  then show "\<not> sublist leftSingle (fixMissingQuotes s)"
    unfolding s4 s4_def using sublist_ReplaceAll [of leftSingle s3 rightSingle "CHR 0x27"]
    by (auto simp: leftSingle_def)
  show "\<not> sublist rightSingle (fixMissingQuotes s)"
    unfolding s4 s4_def by (rule ReplaceAll_removes) (simp_all add: rightSingle_def)
qed

lemma fixMissingQuotes_unchanged:
  assumes "\<not> sublist leftDouble s" "\<not> sublist rightDouble s"
    "\<not> sublist leftSingle s" "\<not> sublist rightSingle s"
  shows "fixMissingQuotes s = s"
  using assms by (simp add: fixMissingQuotes_alt ReplaceAll_absent)

lemma fixMissingQuotes_idem: "fixMissingQuotes (fixMissingQuotes s) = fixMissingQuotes s"
  by (rule fixMissingQuotes_unchanged) (rule fixMissingQuotes_free)+


lemma continuation_not_lead: "continuationByte c \<Longrightarrow> c \<noteq> CHR 0xE2"
  by (auto simp: continuationByte_def)

lemma encodedLength_E2: "encodedLength (CHR 0xE2) = 3"
  by (simp add: encodedLength_def)

lemma encodedLength_le: "encodedLength c \<le> 4"
  by (simp add: encodedLength_def Let_def)

lemma utf8Char_shapes:
  assumes "utf8Char ch"
  obtains a where "ch = [a]" "encodedLength a = 1"
  | a b where "ch = [a, b]" "encodedLength a = 2" "continuationByte b"
  | a b c where "ch = [a, b, c]" "encodedLength a = 3" "continuationByte b" "continuationByte c"
  | a b c d where "ch = [a, b, c, d]" "encodedLength a = 4"
      "continuationByte b" "continuationByte c" "continuationByte d"
proof -
  from assms obtain a rest where ch: "ch = a # rest"
    and len: "Suc (length rest) = encodedLength a" and conts: "list_all continuationByte rest"
    by (auto simp: utf8Char_def split: list.splits)
  from len encodedLength_le [of a] have "length rest \<le> 3" by simp
  then consider "rest = []" | b where "rest = [b]" | b c where "rest = [b, c]"
    | b c d where "rest = [b, c, d]"
    by (cases rest rule: list.exhaust [case_names Nil Cons])
      (auto simp: length_Suc_conv le_Suc_eq numeral_3_eq_3)
  then show thesis
    using ch len conts that by cases auto
qed

lemma ReplaceAll_utf8Char:
  assumes "utf8Char ch"
  shows "ReplaceAll (ch @ t) [CHR 0xE2, b1, b2] [r] =
           (if ch = [CHR 0xE2, b1, b2] then [r] else ch) @ ReplaceAll t [CHR 0xE2, b1, b2] [r]"
  using assms
proof (cases ch rule: utf8Char_shapes)
  case (1 a)
  then have "a \<noteq> CHR 0xE2" by (auto simp: encodedLength_E2)
  with 1 show ?thesis by simp
next
  case (2 a b)
  then have "a \<noteq> CHR 0xE2" "b \<noteq> CHR 0xE2"
    by (auto simp: encodedLength_E2 dest: continuation_not_lead)
  with 2 show ?thesis by simp
next
  case (3 a b c)
  then have "b \<noteq> CHR 0xE2" "c \<noteq> CHR 0xE2"
    by (auto dest: continuation_not_lead)
  with 3 show ?thesis by simp
next
  case (4 a b c d)
  then have "a \<noteq> CHR 0xE2" "b \<noteq> CHR 0xE2" "c \<noteq> CHR 0xE2" "d \<noteq> CHR 0xE2"
    by (auto simp: encodedLength_E2 dest: continuation_not_lead)
  with 4(1) show ?thesis by simp
qed

lemma ReplaceAll_concat:
  assumes "list_all utf8Char cs"
  shows "ReplaceAll (concat cs) [CHR 0xE2, b1, b2] [r] =
           concat (map (\<lambda>ch. if ch = [CHR 0xE2, b1, b2] then [r] else ch) cs)"
  using assms by (induction cs) (simp_all add: ReplaceAll_utf8Char)

lemma utf8Char_ascii: "(of_char r :: nat) < 0x80 \<Longrightarrow> utf8Char [r]"
  by (simp add: utf8Char_def encodedLength_def)

lemma utf8Char_replaced:
  "list_all utf8Char cs \<Longrightarrow> utf8Char [r] \<Longrightarrow>
   list_all utf8Char (map (\<lambda>ch. if ch = p then [r] else ch) cs)"
  by (induction cs) auto

lemma fixMissingQuotes_concat:
  assumes "list_all utf8Char cs"
  shows "fixMissingQuotes (concat cs) = concat (map normalizeChar cs)"
proof -
  define f1 where "f1 = (\<lambda>ch. if ch = leftDouble then [CHR 0x22] else ch)"
  define f2 where "f2 = (\<lambda>ch. if ch = rightDouble then [CHR 0x22] else ch)"
  define f3 where "f3 = (\<lambda>ch. if ch = leftSingle then [CHR 0x27] else ch)"
  define f4 where "f4 = (\<lambda>ch. if ch = rightSingle then [CHR 0x27] else ch)"
  have q: "utf8Char [CHR 0x22]" "utf8Char [CHR 0x27]"
    by (simp_all add: utf8Char_ascii)
  have c1: "list_all utf8Char (map f1 cs)"
    unfolding f1_def using assms q(1) by (rule utf8Char_replaced)
  then have c2: "list_all utf8Char (map f2 (map f1 cs))"
    unfolding f2_def using q(1) by (rule utf8Char_replaced)
  then have c3: "list_all utf8Char (map f3 (map f2 (map f1 cs)))"
    unfolding f3_def using q(2) by (rule utf8Char_replaced)
  have "ReplaceAll (concat cs) leftDouble [CHR 0x22] = concat (map f1 cs)"
    unfolding f1_def leftDouble_def using assms by (rule ReplaceAll_concat)
  moreover have "ReplaceAll (concat (map f1 cs)) rightDouble [CHR 0x22]
      = concat (map f2 (map f1 cs))"
    unfolding f2_def rightDouble_def using c1 by (rule ReplaceAll_concat)
  moreover have "ReplaceAll (concat (map f2 (map f1 cs))) leftSingle [CHR 0x27]
      = concat (map f3 (map f2 (map f1 cs)))"
    unfolding f3_def leftSingle_def using c2 by (rule ReplaceAll_concat)
  moreover have "ReplaceAll (concat (map f3 (map f2 (map f1 cs)))) rightSingle [CHR 0x27]
      = concat (map f4 (map f3 (map f2 (map f1 cs))))"
    unfolding f4_def rightSingle_def using c3 by (rule ReplaceAll_concat)
  ultimately have "fixMissingQuotes (concat cs) = concat (map f4 (map f3 (map f2 (map f1 cs))))"
    by (simp add: fixMissingQuotes_alt)
  moreover have "f4 (f3 (f2 (f1 ch))) = normalizeChar ch" for ch
    by (simp add: f1_def f2_def f3_def f4_def normalizeChar_def leftDouble_def
          rightDouble_def leftSingle_def rightSingle_def)
  ultimately show ?thesis by (simp add: comp_def)
qed

text \<open>
  Claim C7. On a text made of UTF-8 encoded code points the normalizer replaces each of
  U+201C and U+201D by the ASCII double quote and each of U+2018 and U+2019 by the ASCII
  single quote, and leaves every other code point as it is. On every byte string it is
  idempotent.
\<close>

theorem fixMissingQuotes_normalizes:
  "(list_all utf8Char cs \<longrightarrow> fixMissingQuotes (concat cs) = concat (map normalizeChar cs)) \<and>
   fixMissingQuotes (fixMissingQuotes s) = fixMissingQuotes s"
  by (simp add: fixMissingQuotes_concat fixMissingQuotes_idem)

theorem fixMissingQuotes_normalizes_witness:
  "list_all utf8Char quoted_text \<and>
   fixMissingQuotes (concat quoted_text) =
     ''{'' @ [CHR 0x22] @ ''a'' @ [CHR 0x22] @ '':'' @ [CHR 0x27]
       @ [CHR 0xE4, CHR 0xB8, CHR 0xAD, CHR 0xE2, CHR 0x80, CHR 0x9E] @ [CHR 0x27] @ ''}''"
  using fixMissingQuotes_normalizes [of quoted_text]
  by (simp add: quoted_text_def utf8Char_def encodedLength_def continuationByte_def
        normalizeChar_def leftDouble_def rightDouble_def leftSingle_def rightSingle_def)


section \<open>Properties of the context assembler\<close>

lemma fetchSymbol_apply:
  "fetchSymbol g P m x k =
     (if x = k then (case fetchSymbol g P Map.empty k k of Some d \<Rightarrow> Some d | None \<Rightarrow> m k)
      else m k)"
  by (auto simp: fetchSymbol_def Let_def split: sum.splits option.splits)

lemma foldl_fetchSymbol:
  "foldl (fetchSymbol g P) m order k =
     (if k \<in> set order
      then (case fetchSymbol g P Map.empty k k of Some d \<Rightarrow> Some d | None \<Rightarrow> m k)
      else m k)"
proof (induction order arbitrary: m)
  case Nil
  then show ?case by simp
next
  case (Cons x xs)
  show ?case
    unfolding foldl_Cons Cons.IH
    by (subst (1 2) fetchSymbol_apply) (auto split: option.splits)
qed

lemma MarketDataMap_fetch:
  "MarketDataMap (fetchMarketDataForContext g oiTop order ctx) k =
     (if k \<in> set order then fetchSymbol g (positionSymbols ctx) Map.empty k k else None)"
  by (simp add: fetchMarketDataForContext_def foldl_fetchSymbol split: option.splits)

lemma fetchSymbol_fetched:
  "g k = Inr data \<Longrightarrow>
   fetchSymbol g P Map.empty k k =
     (if k \<notin> P \<and> (case OpenInterest data of None \<Rightarrow> False
                     | Some oi \<Rightarrow> CurrentPrice data > 0 \<and> Latest oi * CurrentPrice data < 15000000)
      then None else Some data)"
  by (auto simp: fetchSymbol_def Let_def split: option.splits)

lemma example_symbols:
  "set example_order = symbolSet example_context"
  "positionSymbols example_context = {''DOGEUSDT''}"
  by (auto simp: example_order_def symbolSet_def positionSymbols_def example_context_def
        calculateMaxCandidates_def doge_position_def)




text \<open>
  Claim C9. A symbol of the symbol set that is not a position and whose fetched market
  data has no open-interest record, or a price that is not positive, is in the snapshot
  map.
\<close>

theorem unknown_notional_bypasses_filter:
  "set order = symbolSet ctx \<and> symbol \<in> symbolSet ctx \<and> symbol \<notin> positionSymbols ctx \<and>
   marketGet symbol = Inr data \<and> (OpenInterest data = None \<or> CurrentPrice data \<le> 0) \<longrightarrow>
     MarketDataMap (fetchMarketDataForContext marketGet oiTop order ctx) symbol = Some data"
  by (auto simp: MarketDataMap_fetch fetchSymbol_fetched split: option.splits)


theorem unknown_notional_bypasses_filter_witness:
  "set example_order = symbolSet example_context \<and>
   ''NILUSDT'' \<in> symbolSet example_context \<and> ''NILUSDT'' \<notin> positionSymbols example_context \<and>
   example_market ''NILUSDT'' = Inr \<lparr>CurrentPrice = 2, OpenInterest = None\<rparr> \<and>
   MarketDataMap (fetchMarketDataForContext example_market (Inl []) example_order example_context)
       ''NILUSDT''
     = Some \<lparr>CurrentPrice = 2, OpenInterest = None\<rparr> \<and>
   ''ZEROUSDT'' \<in> symbolSet example_context \<and> ''ZEROUSDT'' \<notin> positionSymbols example_context \<and>
   MarketDataMap (fetchMarketDataForContext example_market (Inl []) example_order example_context)
       ''ZEROUSDT''
     = Some \<lparr>CurrentPrice = 0, OpenInterest = Some \<lparr>Latest = 5\<rparr>\<rparr>"
proof -
  have mem: "''NILUSDT'' \<in> symbolSet example_context" "''ZEROUSDT'' \<in> symbolSet example_context"
    by (simp_all add: example_symbols(1) [symmetric] example_order_def)
  from example_symbols mem
    unknown_notional_bypasses_filter [where order = example_order and ctx = example_context
      and symbol = "''NILUSDT''" and marketGet = example_market and oiTop = "Inl []"
      and data = "\<lparr>CurrentPrice = 2, OpenInterest = None\<rparr>"]
    unknown_notional_bypasses_filter [where order = example_order and ctx = example_context
      and symbol = "''ZEROUSDT''" and marketGet = example_market and oiTop = "Inl []"
      and data = "\<lparr>CurrentPrice = 0, OpenInterest = Some \<lparr>Latest = 5\<rparr>\<rparr>"]
  show ?thesis by (simp add: example_market_def)
qed


end
